theory Spec2Isabelle
  imports Main "HOL-Library.Sublist" "HOL-Library.List_Lexorder" "HOL-Library.Char_ord"
    "HOL-Library.AList" "HOL-Library.Multiset"
begin

section \<open>Go strings\<close>

text \<open>
  A Go \<^verbatim>\<open>string\<close> is a sequence of bytes; it is modelled as \<^typ>\<open>string\<close>, a list of
  \<^typ>\<open>char\<close>, one \<^typ>\<open>char\<close> per byte. The functions of package \<^verbatim>\<open>strings\<close> that
  \<^verbatim>\<open>app.go\<close> calls are written out here with the names they have in Go.
\<close>

text \<open>
  \<^verbatim>\<open>strings.Index\<close>: the byte offset of the first occurrence of \<open>substr\<close> in \<open>s\<close>.
  Go returns \<open>-1\<close> when there is none; the model returns \<open>None\<close>.
\<close>

fun Index :: "string \<Rightarrow> string \<Rightarrow> nat option" where
  "Index [] substr = (if substr = [] then Some 0 else None)"
| "Index (c # s) substr =
     (if prefix substr (c # s) then Some 0 else map_option Suc (Index s substr))"

definition Contains :: "string \<Rightarrow> string \<Rightarrow> bool" where
  "Contains s substr = (Index s substr \<noteq> None)"

definition HasPrefix :: "string \<Rightarrow> string \<Rightarrow> bool" where
  "HasPrefix s p = prefix p s"

definition HasSuffix :: "string \<Rightarrow> string \<Rightarrow> bool" where
  "HasSuffix s p = suffix p s"

lemma Index_bound: "Index s sep = Some m \<Longrightarrow> m + length sep \<le> length s"
  by (induction s arbitrary: m) (auto split: if_splits dest: prefix_length_le)

text \<open>
  \<^verbatim>\<open>strings.Split(s, sep)\<close>: cut at the leftmost occurrence of \<open>sep\<close>, then go on
  with what follows it. The program only ever passes a non-empty separator; for the
  empty one the model cuts after every byte (Go cuts after every UTF-8 sequence).
\<close>

function Split :: "string \<Rightarrow> string \<Rightarrow> string list" where
  "Split s sep =
     (if sep = [] then map (\<lambda>c. [c]) s
      else case Index s sep of
             None \<Rightarrow> [s]
           | Some m \<Rightarrow> take m s # Split (drop (m + length sep) s) sep)"
  by pat_completeness auto
termination
proof (relation "measure (\<lambda>(s, sep). length s)")
  fix s sep :: string and m
  assume "sep \<noteq> []" and "Index s sep = Some m"
  then have "m + length sep \<le> length s" and "0 < length sep"
    by (auto dest: Index_bound)
  then have "length s - (m + length sep) < length s"
    by linarith
  then show "((drop (m + length sep) s, sep), (s, sep)) \<in> measure (\<lambda>(s, sep). length s)"
    by simp
qed simp

declare Split.simps [simp del]

text \<open>\<^verbatim>\<open>strings.SplitN(s, sep, n)\<close> for \<open>n \<ge> 0\<close> and a non-empty separator: at most \<open>n\<close> parts.\<close>

fun SplitN :: "string \<Rightarrow> string \<Rightarrow> nat \<Rightarrow> string list" where
  "SplitN s sep 0 = []"
| "SplitN s sep (Suc 0) = [s]"
| "SplitN s sep (Suc (Suc n)) =
     (case Index s sep of
        None \<Rightarrow> [s]
      | Some m \<Rightarrow> take m s # SplitN (drop (m + length sep) s) sep (Suc n))"

text \<open>
  \<^verbatim>\<open>strings.TrimSpace\<close> removes the leading and the trailing white space, as Unicode
  defines it. \<open>spaceRunes\<close> lists the UTF-8 encodings of the code points for which
  \<^verbatim>\<open>unicode.IsSpace\<close> holds: tab, line feed, vertical tab, form feed, carriage return,
  space, U+0085, U+00A0, U+1680, U+2000 to U+200A, U+2028, U+2029, U+202F, U+205F, U+3000.
  No encoding is a prefix of another; a byte that starts no listed encoding stops the
  trimming, as an invalid or non-space rune does in Go.
\<close>

definition spaceRunes :: "string list" where
  "spaceRunes =
     [[CHR 0x09], [CHR 0x0A], [CHR 0x0B], [CHR 0x0C], [CHR 0x0D], [CHR 0x20],
      [CHR 0xC2, CHR 0x85], [CHR 0xC2, CHR 0xA0], [CHR 0xE1, CHR 0x9A, CHR 0x80],
      [CHR 0xE2, CHR 0x80, CHR 0x80], [CHR 0xE2, CHR 0x80, CHR 0x81],
      [CHR 0xE2, CHR 0x80, CHR 0x82], [CHR 0xE2, CHR 0x80, CHR 0x83],
      [CHR 0xE2, CHR 0x80, CHR 0x84], [CHR 0xE2, CHR 0x80, CHR 0x85],
      [CHR 0xE2, CHR 0x80, CHR 0x86], [CHR 0xE2, CHR 0x80, CHR 0x87],
      [CHR 0xE2, CHR 0x80, CHR 0x88], [CHR 0xE2, CHR 0x80, CHR 0x89],
      [CHR 0xE2, CHR 0x80, CHR 0x8A], [CHR 0xE2, CHR 0x80, CHR 0xA8],
      [CHR 0xE2, CHR 0x80, CHR 0xA9], [CHR 0xE2, CHR 0x80, CHR 0xAF],
      [CHR 0xE2, CHR 0x81, CHR 0x9F], [CHR 0xE3, CHR 0x80, CHR 0x80]]"

text \<open>The number of bytes of the rune of \<open>encs\<close> that \<open>s\<close> starts with, \<open>0\<close> if there is none.\<close>

definition runeWidth :: "string list \<Rightarrow> string \<Rightarrow> nat" where
  "runeWidth encs s = (case filter (\<lambda>e. prefix e s) encs of [] \<Rightarrow> 0 | e # _ \<Rightarrow> length e)"

lemma runeWidth_le: "runeWidth encs s \<le> length s"
proof (cases "filter (\<lambda>e. prefix e s) encs")
  case Nil
  then show ?thesis by (simp add: runeWidth_def)
next
  case (Cons e es)
  then have "e \<in> set (filter (\<lambda>e. prefix e s) encs)" by simp
  then have "prefix e s" by simp
  with Cons show ?thesis by (simp add: runeWidth_def prefix_length_le)
qed

function TrimLeftRunes :: "string list \<Rightarrow> string \<Rightarrow> string" where
  "TrimLeftRunes encs s =
     (if runeWidth encs s = 0 then s else TrimLeftRunes encs (drop (runeWidth encs s) s))"
  by pat_completeness auto
termination
proof (relation "measure (\<lambda>(encs, s). length s)")
  fix encs :: "string list" and s :: string
  assume "runeWidth encs s \<noteq> 0"
  moreover have "runeWidth encs s \<le> length s" by (rule runeWidth_le)
  ultimately have "length s - runeWidth encs s < length s" by linarith
  then show "((encs, drop (runeWidth encs s) s), (encs, s)) \<in> measure (\<lambda>(encs, s). length s)"
    by simp
qed simp

declare TrimLeftRunes.simps [simp del]

text \<open>Trailing runes are trimmed after the leading ones, on the reversed bytes.\<close>

definition TrimSpace :: "string \<Rightarrow> string" where
  "TrimSpace s = rev (TrimLeftRunes (map rev spaceRunes) (rev (TrimLeftRunes spaceRunes s)))"

text \<open>
  \<^verbatim>\<open>strings.ToLower\<close> on ASCII: the letters \<open>A\<close> to \<open>Z\<close> become \<open>a\<close> to \<open>z\<close>, every other
  byte stays. This is Go's own fast path for a string of ASCII bytes; the case mapping of
  code points beyond ASCII is not modelled, such bytes are left as they are.
\<close>

definition toLowerByte :: "char \<Rightarrow> char" where
  "toLowerByte c =
     (if 65 \<le> (of_char c :: nat) \<and> (of_char c :: nat) \<le> 90
      then char_of ((of_char c :: nat) + 32) else c)"

definition ToLower :: "string \<Rightarrow> string" where
  "ToLower s = map toLowerByte s"

text \<open>\<^verbatim>\<open>strings.ReplaceAll(s, "*", "")\<close>, the only use the program makes of \<^verbatim>\<open>ReplaceAll\<close>.\<close>

definition removeStars :: "string \<Rightarrow> string" where
  "removeStars s = filter (\<lambda>c. c \<noteq> CHR ''*'') s"

text \<open>The slice expression \<^verbatim>\<open>s[lo:hi]\<close>, for \<open>lo \<le> hi \<le> length s\<close>.\<close>

definition slice :: "'a list \<Rightarrow> nat \<Rightarrow> nat \<Rightarrow> 'a list" where
  "slice s lo hi = take (hi - lo) (drop lo s)"

section \<open>The query expression tree\<close>

text \<open>
  The struct \<^verbatim>\<open>LuceneQuery\<close>: \<open>Type\<close>, \<open>Field\<close>, \<open>Value\<close> and the three pointers \<open>Left\<close>,
  \<open>Right\<close> and \<open>Query\<close>, each selector with the prefix \<open>lq\<close>. A pointer is an option,
  \<open>None\<close> for \<^verbatim>\<open>nil\<close>; a field that a struct literal leaves out has Go's zero value, the
  empty string or \<^verbatim>\<open>nil\<close>.
\<close>

datatype LuceneQuery =
  LuceneQuery (lqType: string) (lqField: string) (lqValue: string)
    (lqLeft: "LuceneQuery option") (lqRight: "LuceneQuery option")
    (lqQuery: "LuceneQuery option")

section \<open>The query compiler\<close>

text \<open>
  The last part of \<^verbatim>\<open>parseLuceneQuery\<close>, from the comment "Handle field:value syntax"
  to the end of the function: the classification of a query with no operator. It makes
  no recursive call. \<^verbatim>\<open>SplitN(query, ":", 2)\<close> has two parts whenever the query contains
  a colon; the guard on their number is kept as the source has it.
\<close>

definition isQuoted :: "string \<Rightarrow> bool" where
  "isQuoted v = (HasPrefix v [CHR 0x22] \<and> HasSuffix v [CHR 0x22] \<and> 1 < length v)"

definition hasWildcard :: "string \<Rightarrow> bool" where
  "hasWildcard v = (Contains v ''*'' \<or> Contains v ''?'')"

definition parseFieldValue :: "string \<Rightarrow> string \<Rightarrow> LuceneQuery" where
  "parseFieldValue field val =
     (if isQuoted val
        then LuceneQuery ''phrase'' field (slice val 1 (length val - 1)) None None None
      else if hasWildcard val
        then LuceneQuery ''wildcard'' field val None None None
      else LuceneQuery ''field'' field val None None None)"

definition parseUnqualified :: "string \<Rightarrow> LuceneQuery" where
  "parseUnqualified query =
     (if isQuoted query
        then LuceneQuery ''phrase'' [] (slice query 1 (length query - 1)) None None None
      else if hasWildcard query
        then LuceneQuery ''wildcard'' [] query None None None
      else LuceneQuery ''term'' [] query None None None)"

definition parseAtom :: "string \<Rightarrow> LuceneQuery" where
  "parseAtom query =
     (if Contains query '':''
      then (case SplitN query '':'' 2 of
              [p0, p1] \<Rightarrow> parseFieldValue (TrimSpace p0) (TrimSpace p1)
            | _ \<Rightarrow> parseUnqualified query)
      else parseUnqualified query)"

text \<open>
  The struct literals of the operator nodes: \<open>Type\<close>, \<open>Left\<close> and \<open>Right\<close> for \<open>and\<close> and
  \<open>or\<close>, \<open>Type\<close> and \<open>Query\<close> for \<open>not\<close>.
\<close>

definition binaryNode :: "string \<Rightarrow> LuceneQuery option \<Rightarrow> LuceneQuery option \<Rightarrow> LuceneQuery" where
  "binaryNode ty left right = LuceneQuery ty [] [] left right None"

definition notNode :: "LuceneQuery option \<Rightarrow> LuceneQuery" where
  "notNode q = LuceneQuery ''not'' [] [] None None q"

lemma Split_length_le: "p \<in> set (Split s sep) \<Longrightarrow> length p \<le> length s"
proof (induction s sep arbitrary: p rule: Split.induct)
  case (1 s sep)
  show ?case
  proof (cases "sep = []")
    case True
    with "1.prems" obtain c where "c \<in> set s" and "p = [c]"
      by (auto simp: Split.simps [of s "[]"])
    then show ?thesis
      by (cases s) auto
  next
    case False
    show ?thesis
    proof (cases "Index s sep")
      case None
      with False "1.prems" show ?thesis
        by (simp add: Split.simps [of s sep])
    next
      case (Some m)
      with False "1.prems" consider "p = take m s"
        | "p \<in> set (Split (drop (m + length sep) s) sep)"
        by (auto simp: Split.simps [of s sep])
      then show ?thesis
      proof cases
        case 1
        then show ?thesis by simp
      next
        case 2
        with "1.IH" [OF False Some] have "length p \<le> length (drop (m + length sep) s)"
          by simp
        then show ?thesis by simp
      qed
    qed
  qed
qed

lemma Split_length_less:
  assumes "Contains s sep" and "sep \<noteq> []" and "p \<in> set (Split s sep)"
  shows "length p < length s"
proof -
  from assms(1) obtain m where m: "Index s sep = Some m"
    by (auto simp: Contains_def)
  then have bound: "m + length sep \<le> length s"
    by (rule Index_bound)
  from assms(2) have pos: "0 < length sep" by simp
  from assms(2,3) m consider "p = take m s"
    | "p \<in> set (Split (drop (m + length sep) s) sep)"
    by (auto simp: Split.simps [of s sep])
  then show ?thesis
  proof cases
    case 1
    moreover from bound pos have "m < length s" by linarith
    ultimately show ?thesis by simp
  next
    case 2
    then have "length p \<le> length (drop (m + length sep) s)"
      by (rule Split_length_le)
    then have "length p \<le> length s - (m + length sep)" by simp
    with bound pos show ?thesis by linarith
  qed
qed

lemma TrimLeftRunes_length_le: "length (TrimLeftRunes encs s) \<le> length s"
proof (induction encs s rule: TrimLeftRunes.induct)
  case (1 encs s)
  show ?case
  proof (cases "runeWidth encs s = 0")
    case True
    then show ?thesis by (simp add: TrimLeftRunes.simps [of encs s])
  next
    case False
    with "1.IH" have "length (TrimLeftRunes encs (drop (runeWidth encs s) s)) \<le> length s"
      by simp
    with False show ?thesis by (simp add: TrimLeftRunes.simps [of encs s])
  qed
qed

lemma TrimSpace_length_le: "length (TrimSpace s) \<le> length s"
proof -
  have "length (TrimSpace s) \<le> length (TrimLeftRunes spaceRunes s)"
    using TrimLeftRunes_length_le [of "map rev spaceRunes" "rev (TrimLeftRunes spaceRunes s)"]
    by (simp add: TrimSpace_def)
  also have "\<dots> \<le> length s"
    by (rule TrimLeftRunes_length_le)
  finally show ?thesis .
qed

text \<open>
  \<^verbatim>\<open>parseLuceneQuery\<close>. An empty or all-space query is \<^verbatim>\<open>nil\<close>. Otherwise the trimmed
  query is split at \<^verbatim>\<open>" OR "\<close> if it contains it, else at \<^verbatim>\<open>" AND "\<close> if it contains
  that, each part being trimmed and compiled by a recursive call; else a leading
  \<^verbatim>\<open>"NOT "\<close> is taken off and the rest compiled; else the query is an atom. The loop
  over the parts is a \<open>foldl\<close>: \<open>left\<close> starts as the compiled first part, and every
  further part becomes the right child of a new node over \<open>left\<close>. The recursion ends
  because every part of a split, and the rest after \<^verbatim>\<open>"NOT "\<close>, is shorter than the query.
\<close>

function parseLuceneQuery :: "string \<Rightarrow> LuceneQuery option" where
  "parseLuceneQuery query =
     (if TrimSpace query = [] then None
      else if Contains (TrimSpace query) '' OR '' \<and> 2 \<le> length (Split (TrimSpace query) '' OR '')
        then foldl (\<lambda>left part. Some (binaryNode ''or'' left (parseLuceneQuery (TrimSpace part))))
               (parseLuceneQuery (TrimSpace (hd (Split (TrimSpace query) '' OR ''))))
               (tl (Split (TrimSpace query) '' OR ''))
      else if Contains (TrimSpace query) '' AND '' \<and> 2 \<le> length (Split (TrimSpace query) '' AND '')
        then foldl (\<lambda>left part. Some (binaryNode ''and'' left (parseLuceneQuery (TrimSpace part))))
               (parseLuceneQuery (TrimSpace (hd (Split (TrimSpace query) '' AND ''))))
               (tl (Split (TrimSpace query) '' AND ''))
      else if HasPrefix (TrimSpace query) ''NOT ''
        then Some (notNode (parseLuceneQuery (TrimSpace (drop 4 (TrimSpace query)))))
      else Some (parseAtom (TrimSpace query)))"
  by pat_completeness auto
termination
proof (relation "measure length")
  show "wf (measure length)" by simp
next
  fix query :: string
  assume "Contains (TrimSpace query) '' OR '' \<and> 2 \<le> length (Split (TrimSpace query) '' OR '')"
  then have c: "Contains (TrimSpace query) '' OR ''"
    and ne: "Split (TrimSpace query) '' OR '' \<noteq> []"
    by auto
  from ne have "hd (Split (TrimSpace query) '' OR '') \<in> set (Split (TrimSpace query) '' OR '')"
    by simp
  with c have "length (hd (Split (TrimSpace query) '' OR '')) < length (TrimSpace query)"
    by (intro Split_length_less) auto
  with TrimSpace_length_le [of query]
    TrimSpace_length_le [of "hd (Split (TrimSpace query) '' OR '')"]
  show "(TrimSpace (hd (Split (TrimSpace query) '' OR '')), query) \<in> measure length"
    by simp
next
  fix query part :: string
  assume "Contains (TrimSpace query) '' OR '' \<and> 2 \<le> length (Split (TrimSpace query) '' OR '')"
    and "part \<in> set (tl (Split (TrimSpace query) '' OR ''))"
  then have c: "Contains (TrimSpace query) '' OR ''"
    and "part \<in> set (Split (TrimSpace query) '' OR '')"
    by (auto dest: list.set_sel(2) [rotated])
  then have "length part < length (TrimSpace query)"
    by (intro Split_length_less) auto
  with TrimSpace_length_le [of query] TrimSpace_length_le [of part]
  show "(TrimSpace part, query) \<in> measure length"
    by simp
next
  fix query :: string
  assume "Contains (TrimSpace query) '' AND '' \<and> 2 \<le> length (Split (TrimSpace query) '' AND '')"
  then have c: "Contains (TrimSpace query) '' AND ''"
    and ne: "Split (TrimSpace query) '' AND '' \<noteq> []"
    by auto
  from ne have "hd (Split (TrimSpace query) '' AND '') \<in> set (Split (TrimSpace query) '' AND '')"
    by simp
  with c have "length (hd (Split (TrimSpace query) '' AND '')) < length (TrimSpace query)"
    by (intro Split_length_less) auto
  with TrimSpace_length_le [of query]
    TrimSpace_length_le [of "hd (Split (TrimSpace query) '' AND '')"]
  show "(TrimSpace (hd (Split (TrimSpace query) '' AND '')), query) \<in> measure length"
    by simp
next
  fix query part :: string
  assume "Contains (TrimSpace query) '' AND '' \<and> 2 \<le> length (Split (TrimSpace query) '' AND '')"
    and "part \<in> set (tl (Split (TrimSpace query) '' AND ''))"
  then have c: "Contains (TrimSpace query) '' AND ''"
    and "part \<in> set (Split (TrimSpace query) '' AND '')"
    by (auto dest: list.set_sel(2) [rotated])
  then have "length part < length (TrimSpace query)"
    by (intro Split_length_less) auto
  with TrimSpace_length_le [of query] TrimSpace_length_le [of part]
  show "(TrimSpace part, query) \<in> measure length"
    by simp
next
  fix query :: string
  assume "HasPrefix (TrimSpace query) ''NOT ''"
  then have "4 \<le> length (TrimSpace query)"
    by (auto simp: HasPrefix_def dest: prefix_length_le)
  then have "length (drop 4 (TrimSpace query)) < length (TrimSpace query)"
    by simp
  with TrimSpace_length_le [of query] TrimSpace_length_le [of "drop 4 (TrimSpace query)"]
  show "(TrimSpace (drop 4 (TrimSpace query)), query) \<in> measure length"
    by simp
qed

declare parseLuceneQuery.simps [simp del]

section \<open>Records and their values\<close>

text \<open>
  A value of type \<^verbatim>\<open>interface{}\<close> in a record's content. The program does two things
  with such a value: it compares it with \<^verbatim>\<open>nil\<close>, and it prints it with
  \<^verbatim>\<open>fmt.Sprintf("%v", v)\<close>. \<open>VNil\<close> is JSON's \<^verbatim>\<open>null\<close>, \<open>VBool\<close> a boolean, \<open>VString\<close> a
  string and \<open>VInt\<close> a Go \<^verbatim>\<open>int\<close>, as the records of the test suite hold. \<open>VFloat r\<close> is
  a \<^verbatim>\<open>float64\<close>, the type of every number that \<^verbatim>\<open>json.Unmarshal\<close> decodes, and
  \<open>VOther r\<close> a value of any other dynamic type (a slice, a nested map); both are given
  by the text \<open>r\<close> that \<^verbatim>\<open>%v\<close> prints for them: the shortest-digits formatting of
  floating point numbers is not modelled.
\<close>

datatype Value =
  VNil | VBool bool | VInt int | VFloat string | VString string | VOther string

fun digits :: "nat \<Rightarrow> string" where
  "digits n =
     (if n < 10 then [char_of (48 + n)] else digits (n div 10) @ [char_of (48 + n mod 10)])"

declare digits.simps [simp del]

definition Itoa :: "int \<Rightarrow> string" where
  "Itoa i = (if i < 0 then CHR ''-'' # digits (nat (- i)) else digits (nat i))"

fun Sprintf_v :: "Value \<Rightarrow> string" where
  "Sprintf_v VNil = ''<nil>''"
| "Sprintf_v (VBool b) = (if b then ''true'' else ''false'')"
| "Sprintf_v (VInt i) = Itoa i"
| "Sprintf_v (VFloat r) = r"
| "Sprintf_v (VString s) = s"
| "Sprintf_v (VOther r) = r"

text \<open>
  The struct \<^verbatim>\<open>JSONRecord\<close>. \<open>Content\<close> is a Go map from field names to values; it is
  modelled as an association list whose keys are distinct, in the order in which the keys
  stand in the source line. A Go map keeps no order: \<open>map_of\<close> is the lookup
  \<^verbatim>\<open>Content[k]\<close>, and a \<^verbatim>\<open>range\<close> loop over the map visits the entries in an order that Go
  leaves open, for which the model takes the order of the list.
\<close>

record JSONRecord =
  LineNumber :: int
  Content :: "(string \<times> Value) list"
  RawJSON :: string

section \<open>The query evaluator\<close>

definition matchFieldValue :: "Value \<Rightarrow> string \<Rightarrow> bool \<Rightarrow> bool" where
  "matchFieldValue fieldValue searchValue caseSensitive =
     (if fieldValue = VNil then False
      else if \<not> caseSensitive
        then Contains (ToLower (Sprintf_v fieldValue)) (ToLower searchValue)
      else Contains (Sprintf_v fieldValue) searchValue)"

definition matchPhrase :: "string \<Rightarrow> string \<Rightarrow> bool \<Rightarrow> bool" where
  "matchPhrase text phrase caseSensitive =
     (if text = [] then False
      else if \<not> caseSensitive then Contains (ToLower text) (ToLower phrase)
      else Contains text phrase)"

definition simpleWildcardMatch :: "string \<Rightarrow> string \<Rightarrow> bool" where
  "simpleWildcardMatch text pattern =
     (if pattern = ''*'' then True
      else if \<not> Contains pattern ''*'' \<and> \<not> Contains pattern ''?''
        then Contains text pattern
      else if HasPrefix pattern ''*'' \<and> HasSuffix pattern ''*''
        then Contains text (slice pattern 1 (length pattern - 1))
      else if HasPrefix pattern ''*'' then HasSuffix text (drop 1 pattern)
      else if HasSuffix pattern ''*'' then HasPrefix text (take (length pattern - 1) pattern)
      else Contains text (removeStars pattern))"

text \<open>
  \<^verbatim>\<open>matchWildcard\<close> also builds a regular expression from the pattern and never uses
  it; the model leaves that dead assignment out.
\<close>

definition matchWildcard :: "string \<Rightarrow> string \<Rightarrow> bool \<Rightarrow> bool" where
  "matchWildcard text pattern caseSensitive =
     (if text = [] then False
      else if \<not> caseSensitive then simpleWildcardMatch (ToLower text) (ToLower pattern)
      else simpleWildcardMatch text pattern)"

definition matchTerm :: "string \<Rightarrow> string \<Rightarrow> bool \<Rightarrow> bool" where
  "matchTerm text term caseSensitive =
     (if text = [] then False
      else if \<not> caseSensitive then Contains (ToLower text) (ToLower term)
      else Contains text term)"

lemma size_lqLeft: "size_option size (lqLeft q) < Suc (size q)"
  by (cases q) simp

lemma size_lqRight: "size_option size (lqRight q) < Suc (size q)"
  by (cases q) simp

lemma size_lqQuery: "size_option size (lqQuery q) < Suc (size q)"
  by (cases q) simp

text \<open>\<^verbatim>\<open>evaluateLuceneQuery\<close>: the \<^verbatim>\<open>switch\<close> on \<open>Type\<close>, with its \<^verbatim>\<open>default\<close> case.\<close>

function evaluateLuceneQuery :: "LuceneQuery option \<Rightarrow> JSONRecord \<Rightarrow> bool \<Rightarrow> bool" where
  "evaluateLuceneQuery None record caseSensitive = False"
| "evaluateLuceneQuery (Some query) record caseSensitive =
     (if lqType query = ''and''
        then evaluateLuceneQuery (lqLeft query) record caseSensitive
           \<and> evaluateLuceneQuery (lqRight query) record caseSensitive
      else if lqType query = ''or''
        then evaluateLuceneQuery (lqLeft query) record caseSensitive
           \<or> evaluateLuceneQuery (lqRight query) record caseSensitive
      else if lqType query = ''not''
        then \<not> evaluateLuceneQuery (lqQuery query) record caseSensitive
      else if lqType query = ''field''
        then (case map_of (Content record) (lqField query) of
                Some fieldValue \<Rightarrow> matchFieldValue fieldValue (lqValue query) caseSensitive
              | None \<Rightarrow> False)
      else if lqType query = ''phrase''
        then (if lqField query \<noteq> []
              then (case map_of (Content record) (lqField query) of
                      Some fieldValue \<Rightarrow>
                        matchPhrase (Sprintf_v fieldValue) (lqValue query) caseSensitive
                    | None \<Rightarrow> False)
              else matchPhrase (RawJSON record) (lqValue query) caseSensitive)
      else if lqType query = ''wildcard''
        then (if lqField query \<noteq> []
              then (case map_of (Content record) (lqField query) of
                      Some fieldValue \<Rightarrow>
                        matchWildcard (Sprintf_v fieldValue) (lqValue query) caseSensitive
                    | None \<Rightarrow> False)
              else matchWildcard (RawJSON record) (lqValue query) caseSensitive)
      else if lqType query = ''term''
        then (if lqField query \<noteq> []
              then (case map_of (Content record) (lqField query) of
                      Some fieldValue \<Rightarrow> matchFieldValue fieldValue (lqValue query) caseSensitive
                    | None \<Rightarrow> False)
              else matchTerm (RawJSON record) (lqValue query) caseSensitive)
      else False)"
  by pat_completeness auto
termination
  by (relation "measure (\<lambda>(q, record, caseSensitive). size_option size q)")
     (simp_all add: size_lqLeft size_lqRight size_lqQuery)

declare evaluateLuceneQuery.simps(2) [simp del]

text \<open>
  \<^verbatim>\<open>recordMatches\<close>, the plain search: the query is looked for in the raw line, then
  in the printed form of every value.
\<close>

definition recordMatches :: "JSONRecord \<Rightarrow> string \<Rightarrow> bool \<Rightarrow> bool" where
  "recordMatches record query caseSensitive =
     (if Contains (if \<not> caseSensitive then ToLower (RawJSON record) else RawJSON record) query
      then True
      else list_ex
             (\<lambda>(field, val).
                Contains (if \<not> caseSensitive then ToLower (Sprintf_v val) else Sprintf_v val) query)
             (Content record))"

section \<open>The application state and its errors\<close>

text \<open>
  The sentinels of the \<^verbatim>\<open>var\<close> block of errors; \<open>ErrSystem\<close> stands for an error that
  the operating system or the scanner hands over. The struct \<^verbatim>\<open>JSONLError\<close> has the
  fields \<open>Message\<close>, \<open>LineNumber\<close> (here \<open>ErrorLine\<close>), \<open>Line\<close> and \<open>Err\<close>. A function
  of the program fails with a \<^verbatim>\<open>*JSONLError\<close>, with a plain error made by
  \<^verbatim>\<open>fmt.Errorf\<close> (its message without the wrapped cause), or by a run-time panic.
\<close>

datatype sentinel =
  ErrInvalidJSONL | ErrFileNotFound | ErrClipboardEmpty | ErrParsingFailed
  | ErrInvalidLineNum | ErrNoFileLoaded | ErrSystem

record JSONLError =
  Message :: string
  ErrorLine :: int
  Line :: string
  Err :: sentinel

datatype failure = Failed JSONLError | Errorf string | Panic

text \<open>
  Go's \<^verbatim>\<open>int\<close> has 64 bits. The model computes on \<^typ>\<open>int\<close>: the only sums are a
  line count plus one and an offset below the number of records plus a limit of at most
  1000 (or the page size), which stay in range for every store that fits in memory.
  The time stamps of \<^verbatim>\<open>JSONLFile\<close> are left out; no operation modelled here reads them.
  \<open>FileRecords\<close> is the field \<^verbatim>\<open>Records\<close> of \<^verbatim>\<open>JSONLFile\<close>, \<open>appRecords\<close> the field
  \<^verbatim>\<open>records\<close> of \<^verbatim>\<open>App\<close>.
\<close>

record JSONLFile =
  Name :: string
  Path :: string
  Size :: int
  FileRecords :: int

record RecordCache =
  records :: "JSONRecord list"
  pageSize :: int
  totalCount :: int

record App =
  currentFile :: "JSONLFile option"
  appRecords :: "JSONRecord list"
  cache :: "RecordCache option"

definition noFileLoaded :: failure where
  "noFileLoaded =
     Failed \<lparr>Message = ''No file currently loaded'', ErrorLine = 0, Line = [],
             Err = ErrNoFileLoaded\<rparr>"

section \<open>The record store\<close>

text \<open>
  \<^verbatim>\<open>PaginatedRecords\<close>, with \<open>pageOffset\<close> and \<open>pageLimit\<close> for its fields \<^verbatim>\<open>Offset\<close> and
  \<^verbatim>\<open>Limit\<close>.
\<close>

record PaginatedRecords =
  Records :: "JSONRecord list"
  pageOffset :: int
  pageLimit :: int
  pageTotal :: int
  HasMore :: bool

text \<open>
  \<^verbatim>\<open>GetRecords\<close>. The slice expression \<^verbatim>\<open>records[offset:endIndex]\<close> panics when
  \<open>endIndex\<close> is beyond the slice, which the model takes to be as long as its capacity;
  that needs a \<open>totalCount\<close> larger than the number of records.
\<close>

definition GetRecords :: "App \<Rightarrow> int \<Rightarrow> int \<Rightarrow> failure + PaginatedRecords" where
  "GetRecords a offset0 limit0 =
     (case (currentFile a, cache a) of
        (Some f, Some c) \<Rightarrow>
          (let offset = (if offset0 < 0 then 0 else offset0);
               limit1 = (if limit0 \<le> 0 then pageSize c else limit0);
               limit = (if limit1 > 1000 then 1000 else limit1);
               totalRecords = totalCount c
           in if offset \<ge> totalRecords
              then Inr \<lparr>Records = [], pageOffset = offset, pageLimit = limit,
                         pageTotal = totalRecords, HasMore = False\<rparr>
              else
                (let endIndex =
                       (if offset + limit > totalRecords then totalRecords else offset + limit)
                 in if nat endIndex > length (records c) then Inl Panic
                    else Inr \<lparr>Records = slice (records c) (nat offset) (nat endIndex),
                               pageOffset = offset, pageLimit = limit,
                               pageTotal = totalRecords, HasMore = (endIndex < totalRecords)\<rparr>))
      | _ \<Rightarrow> Inl noFileLoaded)"

text \<open>\<^verbatim>\<open>GetRecordByLineNumber\<close>: the first record of the cache with the line number.\<close>

definition GetRecordByLineNumber :: "App \<Rightarrow> int \<Rightarrow> failure + JSONRecord" where
  "GetRecordByLineNumber a lineNumber =
     (case (currentFile a, cache a) of
        (Some f, Some c) \<Rightarrow>
          if lineNumber \<le> 0
          then Inl (Failed \<lparr>Message = ''Line number must be greater than 0'',
                             ErrorLine = lineNumber, Line = [], Err = ErrInvalidLineNum\<rparr>)
          else (case find (\<lambda>record. LineNumber record = lineNumber) (records c) of
                  Some record \<Rightarrow> Inr record
                | None \<Rightarrow>
                    Inl (Failed \<lparr>Message = ''Record not found at specified line number'',
                                  ErrorLine = lineNumber, Line = [], Err = ErrInvalidLineNum\<rparr>))
      | _ \<Rightarrow> Inl noFileLoaded)"

section \<open>Field statistics\<close>

text \<open>
  The map \<^verbatim>\<open>fieldCounts\<close> is an association list; \<^verbatim>\<open>fieldCounts[field]++\<close> reads the
  count (zero for a missing key) and stores it plus one. The closing loop, which
  \<^verbatim>\<open>ParseJSONL\<close>, \<^verbatim>\<open>ParseJSONLFromString\<close> and \<^verbatim>\<open>GetCommonFields\<close> each contain, keeps the
  fields whose count reaches \<^verbatim>\<open>totalRecords / 2\<close>, an integer division.
\<close>

definition countField :: "(string \<times> int) list \<Rightarrow> string \<Rightarrow> (string \<times> int) list" where
  "countField fieldCounts field =
     AList.update field ((case map_of fieldCounts field of Some n \<Rightarrow> n | None \<Rightarrow> 0) + 1)
       fieldCounts"

definition countFields :: "(string \<times> int) list \<Rightarrow> (string \<times> Value) list \<Rightarrow> (string \<times> int) list" where
  "countFields fieldCounts content = foldl countField fieldCounts (map fst content)"

definition commonFieldsOf :: "(string \<times> int) list \<Rightarrow> int \<Rightarrow> string list" where
  "commonFieldsOf fieldCounts totalRecords =
     map fst (filter (\<lambda>(field, count). count \<ge> totalRecords div 2) fieldCounts)"

definition GetCommonFields :: "App \<Rightarrow> failure + string list" where
  "GetCommonFields a =
     (case (currentFile a, cache a) of
        (Some f, Some c) \<Rightarrow>
          Inr (commonFieldsOf
                 (foldl (\<lambda>fieldCounts record. countFields fieldCounts (Content record))
                    [] (records c))
                 (int (length (records c))))
      | _ \<Rightarrow> Inl noFileLoaded)"

section \<open>Loading\<close>

text \<open>
  A file as the program meets it: whether \<^verbatim>\<open>Stat\<close> fails, its size, the lines that the
  scanner delivers, and whether the scanner ends with an error. \<^verbatim>\<open>json.Unmarshal\<close> into
  a map is a parameter \<open>unmarshal\<close> of the functions that call it: \<open>None\<close> when it
  returns an error, else the decoded map.
\<close>

record SourceFile =
  statFails :: bool
  fileSize :: int
  fileLines :: "string list"
  scanFails :: bool

record FileStats =
  TotalLines :: int
  ValidRecords :: int
  InvalidLines :: "int list"
  CommonFields :: "string list"
  FileSize :: int

record ParseState =
  psRecords :: "JSONRecord list"
  psInvalidLines :: "int list"
  psFieldCounts :: "(string \<times> int) list"
  psTotalRecords :: int
  psLineCount :: int

fun parseLines ::
  "(string \<Rightarrow> (string \<times> Value) list option) \<Rightarrow> string list \<Rightarrow> ParseState \<Rightarrow> ParseState" where
  "parseLines unmarshal [] st = st"
| "parseLines unmarshal (text # rest) st =
     (if TrimSpace text = []
      then parseLines unmarshal rest (st\<lparr>psLineCount := psLineCount st + 1\<rparr>)
      else case unmarshal (TrimSpace text) of
             None \<Rightarrow>
               parseLines unmarshal rest
                 (st\<lparr>psLineCount := psLineCount st + 1,
                     psInvalidLines := psInvalidLines st @ [psLineCount st + 1]\<rparr>)
           | Some content \<Rightarrow>
               parseLines unmarshal rest
                 (st\<lparr>psLineCount := psLineCount st + 1,
                     psFieldCounts := countFields (psFieldCounts st) content,
                     psRecords := psRecords st
                       @ [\<lparr>LineNumber = psLineCount st + 1, Content = content,
                            RawJSON = TrimSpace text\<rparr>],
                     psTotalRecords := psTotalRecords st + 1\<rparr>))"

definition ParseJSONL ::
  "(string \<Rightarrow> (string \<times> Value) list option) \<Rightarrow> SourceFile
     \<Rightarrow> failure + JSONRecord list \<times> FileStats" where
  "ParseJSONL unmarshal file =
     (if statFails file
      then Inl (Failed \<lparr>Message = ''Failed to get file information'', ErrorLine = 0,
                         Line = [], Err = ErrSystem\<rparr>)
      else
        (let st = parseLines unmarshal (fileLines file)
                    \<lparr>psRecords = [], psInvalidLines = [], psFieldCounts = [],
                     psTotalRecords = 0, psLineCount = 0\<rparr>
         in if scanFails file
            then Inl (Failed \<lparr>Message = ''Error reading file'', ErrorLine = 0, Line = [],
                               Err = ErrSystem\<rparr>)
            else Inr (psRecords st,
                      \<lparr>TotalLines = psLineCount st, ValidRecords = psTotalRecords st,
                       InvalidLines = psInvalidLines st,
                       CommonFields = commonFieldsOf (psFieldCounts st) (psTotalRecords st),
                       FileSize = fileSize file\<rparr>)))"

section \<open>Searching\<close>

text \<open>
  \<^verbatim>\<open>SearchResult\<close>, with the prefix \<open>res\<close> on the fields that \<^verbatim>\<open>SearchOptions\<close> has
  too.
\<close>

record SearchOptions =
  Query :: string
  CaseSensitive :: bool
  UseLucene :: bool
  SelectedField :: string
  Offset :: int
  Limit :: int

record SearchResult =
  resRecords :: "JSONRecord list"
  resOffset :: int
  resLimit :: int
  resTotal :: int
  TotalMatches :: int
  resHasMore :: bool
  resQuery :: string

text \<open>
  The body of \<^verbatim>\<open>SearchRecords\<close>, with the compiler it calls as the parameter
  \<open>compile\<close>, so that a statement can say that a result does not depend on the compiler.
  \<^verbatim>\<open>SearchRecords\<close> itself passes \<^verbatim>\<open>parseLuceneQuery\<close>.
\<close>

definition SearchRecordsWith ::
  "(string \<Rightarrow> LuceneQuery option) \<Rightarrow> App \<Rightarrow> SearchOptions \<Rightarrow> failure + SearchResult" where
  "SearchRecordsWith compile a options =
     (case (currentFile a, cache a) of
        (Some f, Some c) \<Rightarrow>
          if TrimSpace (Query options) = []
          then Inr \<lparr>resRecords = [], resOffset = Offset options, resLimit = Limit options,
                     resTotal = 0, TotalMatches = 0, resHasMore = False,
                     resQuery = Query options\<rparr>
          else
            (let offset = (if Offset options < 0 then 0 else Offset options);
                 limit1 = (if Limit options \<le> 0 then 50 else Limit options);
                 limit = (if limit1 > 1000 then 1000 else limit1);
                 matchingRecords =
                   (if UseLucene options
                    then (case compile (Query options) of
                            Some luceneQuery \<Rightarrow>
                              filter
                                (\<lambda>record. evaluateLuceneQuery (Some luceneQuery) record
                                             (CaseSensitive options))
                                (records c)
                          | None \<Rightarrow> [])
                    else
                      filter
                        (\<lambda>record.
                           if SelectedField options \<noteq> [] \<and> SelectedField options \<noteq> ''all''
                           then (case map_of (Content record) (SelectedField options) of
                                   Some fieldValue \<Rightarrow>
                                     matchFieldValue fieldValue (Query options)
                                       (CaseSensitive options)
                                 | None \<Rightarrow> False)
                           else recordMatches record
                                  (if \<not> CaseSensitive options then ToLower (Query options)
                                   else Query options)
                                  (CaseSensitive options))
                        (records c));
                 totalMatches = int (length matchingRecords)
             in if offset \<ge> totalMatches
                then Inr \<lparr>resRecords = [], resOffset = offset, resLimit = limit,
                           resTotal = totalCount c, TotalMatches = totalMatches,
                           resHasMore = False, resQuery = Query options\<rparr>
                else
                  (let endIndex =
                         (if offset + limit > totalMatches then totalMatches else offset + limit)
                   in Inr \<lparr>resRecords = slice matchingRecords (nat offset) (nat endIndex),
                              resOffset = offset, resLimit = limit, resTotal = totalCount c,
                              TotalMatches = totalMatches,
                              resHasMore = (endIndex < totalMatches),
                              resQuery = Query options\<rparr>))
      | _ \<Rightarrow> Inl noFileLoaded)"

definition SearchRecords :: "App \<Rightarrow> SearchOptions \<Rightarrow> failure + SearchResult" where
  "SearchRecords a options = SearchRecordsWith parseLuceneQuery a options"

section \<open>Export\<close>

text \<open>
  The loop of \<^verbatim>\<open>GetAllRecords\<close> over the lines of the file, \<open>lineNumber\<close> counting from
  the value given. The source appends each record that it keeps to \<^verbatim>\<open>allRecords\<close>;
  the model puts it in front of the records of the remaining lines, which is the same
  list.
\<close>

fun scanAllRecords ::
  "(string \<Rightarrow> (string \<times> Value) list option) \<Rightarrow> string \<Rightarrow> int \<Rightarrow> string list
     \<Rightarrow> JSONRecord list" where
  "scanAllRecords unmarshal searchQuery lineNumber [] = []"
| "scanAllRecords unmarshal searchQuery lineNumber (text # rest) =
     (if TrimSpace text = []
      then scanAllRecords unmarshal searchQuery (lineNumber + 1) rest
      else case unmarshal (TrimSpace text) of
             None \<Rightarrow> scanAllRecords unmarshal searchQuery (lineNumber + 1) rest
           | Some jsonData \<Rightarrow>
               if searchQuery \<noteq> []
                  \<and> \<not> (case parseLuceneQuery searchQuery of
                           Some luceneQuery \<Rightarrow>
                             evaluateLuceneQuery (Some luceneQuery)
                               \<lparr>LineNumber = lineNumber, Content = jsonData,
                                RawJSON = TrimSpace text\<rparr> False
                         | None \<Rightarrow>
                             recordMatches
                               \<lparr>LineNumber = lineNumber, Content = jsonData,
                                RawJSON = TrimSpace text\<rparr> searchQuery False)
               then scanAllRecords unmarshal searchQuery (lineNumber + 1) rest
               else \<lparr>LineNumber = lineNumber, Content = jsonData, RawJSON = TrimSpace text\<rparr>
                      # scanAllRecords unmarshal searchQuery (lineNumber + 1) rest)"

text \<open>
  \<^verbatim>\<open>GetAllRecords\<close> reads the file of the current path again. \<open>fs\<close> is the file
  system: \<open>None\<close> for a path that \<^verbatim>\<open>os.Open\<close> cannot open.
\<close>

definition GetAllRecords ::
  "(string \<Rightarrow> (string \<times> Value) list option) \<Rightarrow> (string \<Rightarrow> SourceFile option) \<Rightarrow> App
     \<Rightarrow> string \<Rightarrow> failure + JSONRecord list" where
  "GetAllRecords unmarshal fs a searchQuery =
     (case currentFile a of
        None \<Rightarrow> Inl (Errorf ''no file loaded'')
      | Some f \<Rightarrow>
          (case fs (Path f) of
             None \<Rightarrow> Inl (Errorf ''failed to open file'')
           | Some file \<Rightarrow>
               if scanFails file then Inl (Errorf ''error reading file'')
               else Inr (scanAllRecords unmarshal searchQuery 1 (fileLines file))))"

text \<open>
  What \<^verbatim>\<open>getDisplayJSON\<close> returns: the raw line, or the text that \<^verbatim>\<open>json.Marshal\<close>
  writes for the filtered map. \<open>Marshalled es\<close> stands for that text, \<open>es\<close> being the
  members in the order in which they are written: \<^verbatim>\<open>json.Marshal\<close> sorts the keys of a
  map, by their bytes. It does not fail on content that came from JSON, so the fallback of
  the source for a failure has no branch here.
\<close>

datatype DisplayJSON = RawLine string | Marshalled "(string \<times> Value) list"

definition Marshal :: "(string \<times> Value) list \<Rightarrow> DisplayJSON" where
  "Marshal m = Marshalled (sort_key fst m)"

definition getDisplayJSON :: "JSONRecord \<Rightarrow> string list \<Rightarrow> string list \<Rightarrow> DisplayJSON" where
  "getDisplayJSON record shownFields hiddenFields =
     (if length shownFields = 0 \<and> length hiddenFields = 0 then RawLine (RawJSON record)
      else if length shownFields > 0
        then Marshal
               (foldl
                  (\<lambda>filteredContent field.
                     case map_of (Content record) field of
                       Some val \<Rightarrow> AList.update field val filteredContent
                     | None \<Rightarrow> filteredContent)
                  [] shownFields)
      else Marshal
             (foldl
                (\<lambda>filteredContent (field, val).
                   if list_ex (\<lambda>hiddenField. field = hiddenField) hiddenFields
                   then filteredContent
                   else AList.update field val filteredContent)
                [] (Content record)))"

text \<open>
  \<^verbatim>\<open>ExportSearchResults\<close> writes one line for every record of \<^verbatim>\<open>GetAllRecords\<close>. The
  model returns the lines written; \<open>target\<close> tells which of the steps on the way fails:
  finding the home directory, making the download directory, creating the file, and
  the write of the line with a given index.
\<close>

record ExportTarget =
  homeDirFails :: bool
  mkdirFails :: bool
  createFails :: bool
  writeFailsAt :: "nat option"

definition ExportSearchResults ::
  "(string \<Rightarrow> (string \<times> Value) list option) \<Rightarrow> (string \<Rightarrow> SourceFile option) \<Rightarrow> ExportTarget
     \<Rightarrow> App \<Rightarrow> string \<Rightarrow> string list \<Rightarrow> string list \<Rightarrow> failure + DisplayJSON list" where
  "ExportSearchResults unmarshal fs target a searchQuery shownFields hiddenFields =
     (if homeDirFails target then Inl (Errorf ''failed to get home directory'')
      else if mkdirFails target then Inl (Errorf ''failed to create downloads directory'')
      else if createFails target then Inl (Errorf ''failed to create export file'')
      else case GetAllRecords unmarshal fs a searchQuery of
             Inl e \<Rightarrow> Inl (Errorf ''failed to get all records'')
           | Inr allRecords \<Rightarrow>
               (case writeFailsAt target of
                  Some i \<Rightarrow>
                    if i < length allRecords then Inl (Errorf ''failed to write to export file'')
                    else Inr (map (\<lambda>record. getDisplayJSON record shownFields hiddenFields)
                                allRecords)
                | None \<Rightarrow>
                    Inr (map (\<lambda>record. getDisplayJSON record shownFields hiddenFields)
                           allRecords)))"

section \<open>The compiler splits top-down\<close>










section \<open>What the evaluator computes\<close>





section \<open>The question mark\<close>
















section \<open>Projection\<close>

text \<open>
  C3, as the specification has it: with a non-empty list of fields to show, the entries
  of the content whose keys are in the list, in the order in which the keys stand in the
  record.
\<close>

definition projectInOriginalOrder :: "JSONRecord \<Rightarrow> string list \<Rightarrow> (string \<times> Value) list" where
  "projectInOriginalOrder record shownFields =
     filter (\<lambda>(field, val). field \<in> set shownFields) (Content record)"

text \<open>A record of the line \<^verbatim>\<open>{"b":2,"a":1}\<close>, and the record of the specification's example.\<close>

definition unsortedRecord :: JSONRecord where
  \<open>unsortedRecord =
     \<lparr>LineNumber = 1, Content = [(''b'', VFloat ''2''), (''a'', VFloat ''1'')],
      RawJSON = ''{"b":2,"a":1}''\<rparr>\<close>

definition abcRecord :: JSONRecord where
  \<open>abcRecord =
     \<lparr>LineNumber = 1,
      Content = [(''a'', VFloat ''1''), (''b'', VFloat ''2''), (''c'', VFloat ''3'')],
      RawJSON = ''{"a":1,"b":2,"c":3}''\<rparr>\<close>

text \<open>
  Shown with the fields \<open>a\<close> and \<open>b\<close>, the first record comes out as \<open>a\<close> then \<open>b\<close>, not in
  its own order \<open>b\<close> then \<open>a\<close>: the filtered content is a Go map, and \<^verbatim>\<open>json.Marshal\<close>
  writes the keys of a map in ascending order.
\<close>

theorem original_key_order_counterexample:
  "[''a'', ''b''] \<noteq> []
   \<and> getDisplayJSON unsortedRecord [''a'', ''b''] [] = Marshalled [(''a'', VFloat ''1''), (''b'', VFloat ''2'')]
   \<and> projectInOriginalOrder unsortedRecord [''a'', ''b''] = [(''b'', VFloat ''2''), (''a'', VFloat ''1'')]
   \<and> getDisplayJSON unsortedRecord [''a'', ''b''] []
       \<noteq> Marshalled (projectInOriginalOrder unsortedRecord [''a'', ''b''])"
  by code_simp

lemma filter_same_key:
  assumes "distinct (map fst xs)" and "k \<in> set xs"
  shows "filter (\<lambda>x. fst k = fst x) xs = [k]"
  using assms
proof (induction xs)
  case Nil
  then show ?case by simp
next
  case (Cons x xs)
  show ?case
  proof (cases "k = x")
    case True
    with Cons.prems have "filter (\<lambda>y. fst k = fst y) xs = []"
      by (auto simp: filter_empty_conv image_iff)
    with True show ?thesis by simp
  next
    case False
    with Cons.prems have "k \<in> set xs" and "fst k \<noteq> fst x"
      by (auto simp: image_iff)
    with Cons show ?thesis by simp
  qed
qed

lemma sort_key_unique:
  assumes dx: "distinct (map fst xs)" and dy: "distinct (map fst ys)" and eq: "set xs = set ys"
  shows "sort_key fst xs = sort_key fst (ys :: ('k::linorder \<times> 'v) list)"
proof (rule properties_for_sort_key)
  from dx dy have "distinct xs" and "distinct ys"
    by (simp_all add: distinct_map)
  with eq have m: "mset xs = mset ys"
    by (simp add: set_eq_iff_mset_eq_distinct)
  then show "mset (sort_key fst ys) = mset xs" by simp
  show "sorted (map fst (sort_key fst ys))" by simp
  fix k
  assume "k \<in> set (sort_key fst ys)"
  then have ky: "k \<in> set ys" by simp
  with eq have kx: "k \<in> set xs" by simp
  have "mset (map fst (sort_key fst ys)) = mset (map fst ys)" by simp
  with dy have "distinct (map fst (sort_key fst ys))"
    by (metis mset_eq_imp_distinct_iff)
  with ky have "filter (\<lambda>x. fst k = fst x) (sort_key fst ys) = [k]"
    by (intro filter_same_key) simp_all
  moreover from dx kx have "filter (\<lambda>x. fst k = fst x) xs = [k]"
    by (rule filter_same_key)
  ultimately show "filter (\<lambda>x. fst k = fst x) (sort_key fst ys) = filter (\<lambda>x. fst k = fst x) xs"
    by simp
qed

lemma shown_fold_map_of:
  "map_of (foldl (\<lambda>filteredContent field.
                     case map_of content field of
                       Some val \<Rightarrow> AList.update field val filteredContent
                     | None \<Rightarrow> filteredContent) acc shownFields) k
     = (if k \<in> set shownFields \<and> map_of content k \<noteq> None then map_of content k
        else map_of acc k)"
  by (induction shownFields arbitrary: acc) (auto simp: update_conv' split: option.splits)

lemma shown_fold_distinct:
  "distinct (map fst acc) \<Longrightarrow>
   distinct (map fst (foldl (\<lambda>filteredContent field.
                     case map_of content field of
                       Some val \<Rightarrow> AList.update field val filteredContent
                     | None \<Rightarrow> filteredContent) acc shownFields))"
  by (induction shownFields arbitrary: acc) (auto simp: distinct_update split: option.splits)

lemma shown_fold_set:
  assumes "distinct (map fst content)"
  shows "set (foldl (\<lambda>filteredContent field.
                     case map_of content field of
                       Some val \<Rightarrow> AList.update field val filteredContent
                     | None \<Rightarrow> filteredContent) [] shownFields)
     = set (filter (\<lambda>(field, val). field \<in> set shownFields) content)"
    (is "set ?built = set ?kept")
proof -
  have db: "distinct (map fst ?built)"
    by (rule shown_fold_distinct) simp
  from assms have dk: "distinct (map fst ?kept)"
    by (simp add: distinct_map_filter)
  have "map_of ?built = map_of ?kept"
  proof
    fix k
    have "map_of ?kept k = (if k \<in> set shownFields then map_of content k else None)"
      by (induction content) auto
    then show "map_of ?built k = map_of ?kept k"
      by (simp add: shown_fold_map_of)
  qed
  with db dk show ?thesis
    by (simp add: map_of_inject_set)
qed

text \<open>
  C3, amended. For every record, whose content as a map has distinct keys, and every
  non-empty list of fields to show, the result is the marshalled object of exactly the
  content entries whose keys are in the list, written in ascending order of the keys. The
  list of fields to hide does not enter the result. Shown with \<open>a\<close> and hidden \<open>b\<close>, the
  record \<^verbatim>\<open>{"a":1,"b":2,"c":3}\<close> gives \<^verbatim>\<open>{"a":1}\<close>.
\<close>

theorem getDisplayJSON_shown_fields:
  assumes "shownFields \<noteq> []" and "distinct (map fst (Content record))"
  shows "getDisplayJSON record shownFields hiddenFields
           = Marshalled (sort_key fst (projectInOriginalOrder record shownFields))"
proof -
  let ?built = "foldl (\<lambda>filteredContent field.
                     case map_of (Content record) field of
                       Some val \<Rightarrow> AList.update field val filteredContent
                     | None \<Rightarrow> filteredContent) [] shownFields"
  have "sort_key fst ?built = sort_key fst (projectInOriginalOrder record shownFields)"
    unfolding projectInOriginalOrder_def
  proof (rule sort_key_unique)
    show "distinct (map fst ?built)" by (rule shown_fold_distinct) simp
    from assms(2) show "distinct (map fst (filter (\<lambda>(field, val). field \<in> set shownFields) (Content record)))"
      by (simp add: distinct_map_filter)
    from assms(2) show "set ?built = set (filter (\<lambda>(field, val). field \<in> set shownFields) (Content record))"
      by (rule shown_fold_set)
  qed
  with assms(1) show ?thesis
    by (simp add: getDisplayJSON_def Marshal_def)
qed

theorem getDisplayJSON_shown_fields_witness:
  "getDisplayJSON abcRecord [''a''] [''b''] = Marshalled [(''a'', VFloat ''1'')]"
proof -
  have "[''a''] \<noteq> ([] :: string list)" and "distinct (map fst (Content abcRecord))"
    by (simp_all add: abcRecord_def)
  then have "getDisplayJSON abcRecord [''a''] [''b'']
           = Marshalled (sort_key fst (projectInOriginalOrder abcRecord [''a'']))"
    by (rule getDisplayJSON_shown_fields)
  then show ?thesis
    by (simp add: projectInOriginalOrder_def abcRecord_def)
qed

section \<open>Common fields\<close>

text \<open>
  A file of three lines, each a JSON object; the field \<open>note\<close> is in the first only.
  \<open>thirdsDecode\<close> is what \<^verbatim>\<open>json.Unmarshal\<close> answers on these lines, \<open>thirdsApp\<close> the
  application after loading the file.
\<close>

definition thirdsLines :: "string list" where
  \<open>thirdsLines = [''{"id":"1","note":"n"}'', ''{"id":"2"}'', ''{"id":"3"}'']\<close>

definition thirdsDecode :: "string \<Rightarrow> (string \<times> Value) list option" where
  \<open>thirdsDecode =
     map_of
       [(''{"id":"1","note":"n"}'', [(''id'', VString ''1''), (''note'', VString ''n'')]),
        (''{"id":"2"}'', [(''id'', VString ''2'')]),
        (''{"id":"3"}'', [(''id'', VString ''3'')])]\<close>

definition thirdsFile :: SourceFile where
  "thirdsFile = \<lparr>statFails = False, fileSize = 44, fileLines = thirdsLines, scanFails = False\<rparr>"

definition thirdsRecords :: "JSONRecord list" where
  \<open>thirdsRecords =
     [\<lparr>LineNumber = 1, Content = [(''id'', VString ''1''), (''note'', VString ''n'')],
       RawJSON = ''{"id":"1","note":"n"}''\<rparr>,
      \<lparr>LineNumber = 2, Content = [(''id'', VString ''2'')], RawJSON = ''{"id":"2"}''\<rparr>,
      \<lparr>LineNumber = 3, Content = [(''id'', VString ''3'')], RawJSON = ''{"id":"3"}''\<rparr>]\<close>

definition thirdsApp :: App where
  "thirdsApp =
     \<lparr>currentFile = Some \<lparr>Name = ''thirds.jsonl'', Path = ''/data/thirds.jsonl'', Size = 44,
                           FileRecords = 3\<rparr>,
      appRecords = thirdsRecords,
      cache = Some \<lparr>records = thirdsRecords, pageSize = 50, totalCount = 3\<rparr>\<rparr>"

text \<open>
  C4, as the specification has it: a field is common when it appears in at least half of
  the valid records.
\<close>

definition fieldCount :: "JSONRecord list \<Rightarrow> string \<Rightarrow> nat" where
  "fieldCount rs field = length (filter (\<lambda>record. map_of (Content record) field \<noteq> None) rs)"

definition inAtLeastHalf :: "JSONRecord list \<Rightarrow> string \<Rightarrow> bool" where
  "inAtLeastHalf rs field = (length rs \<le> 2 * fieldCount rs field)"

text \<open>
  C4 on that file. The field \<open>note\<close> appears in one record of three, less than half, and
  is among the common fields of the load and of \<^verbatim>\<open>GetCommonFields\<close>: the threshold
  \<^verbatim>\<open>totalRecords / 2\<close> is an integer division, which gives 1 for three records.
\<close>

theorem common_fields_one_of_three:
  "ParseJSONL thirdsDecode thirdsFile
     = Inr (thirdsRecords,
            \<lparr>TotalLines = 3, ValidRecords = 3, InvalidLines = [],
             CommonFields = [''id'', ''note''], FileSize = 44\<rparr>)
   \<and> GetCommonFields thirdsApp = Inr [''id'', ''note'']
   \<and> fieldCount thirdsRecords ''note'' = 1
   \<and> \<not> inAtLeastHalf thirdsRecords ''note''"
  by code_simp

section \<open>The export ignores case\<close>














section \<open>A store of two records\<close>

text \<open>A loaded application, for the statements below: two records, from lines 1 and 3.\<close>

definition janeRecord :: JSONRecord where
  \<open>janeRecord =
     \<lparr>LineNumber = 3, Content = [(''name'', VString ''Jane'')], RawJSON = ''{"name":"Jane"}''\<rparr>\<close>

definition exampleRecords :: "JSONRecord list" where
  \<open>exampleRecords =
     [\<lparr>LineNumber = 1, Content = [(''name'', VString ''John''), (''city'', VString ''Oslo'')],
       RawJSON = ''{"name":"John","city":"Oslo"}''\<rparr>,
      janeRecord]\<close>

definition exampleFile :: JSONLFile where
  "exampleFile =
     \<lparr>Name = ''people.jsonl'', Path = ''/data/people.jsonl'', Size = 47, FileRecords = 2\<rparr>"

definition exampleCache :: RecordCache where
  "exampleCache = \<lparr>records = exampleRecords, pageSize = 50, totalCount = 2\<rparr>"

definition exampleApp :: App where
  "exampleApp =
     \<lparr>currentFile = Some exampleFile, appRecords = exampleRecords, cache = Some exampleCache\<rparr>"

section \<open>Pages and lookups\<close>

text \<open>
  C9. On a loaded store, \<^verbatim>\<open>GetRecords\<close> with an offset that is not below the total
  count returns a page, not an error, for any limit: the page has no records and
  \<open>HasMore\<close> is false.
\<close>

theorem GetRecords_offset_beyond_end:
  assumes "currentFile a = Some f" and "cache a = Some c" and "totalCount c \<le> offset"
  shows "\<exists>page. GetRecords a offset limit = Inr page \<and> Records page = [] \<and> \<not> HasMore page
           \<and> pageTotal page = totalCount c"
  using assms by (auto simp: GetRecords_def Let_def)

theorem GetRecords_offset_beyond_end_witness:
  "\<exists>page. GetRecords exampleApp 2 10 = Inr page \<and> Records page = [] \<and> \<not> HasMore page
           \<and> pageTotal page = 2"
  using GetRecords_offset_beyond_end [of exampleApp exampleFile exampleCache 2 10]
  by (simp add: exampleApp_def exampleCache_def)

text \<open>
  C8. On a loaded store, a search whose query is empty or all white space returns the
  empty result, with no records and \<open>TotalMatches = 0\<close>, whatever the store holds and
  whatever offset and limit are asked for. The result is the same for every compiler
  \<open>compile\<close> that the body could call: the compiler has no part in it.
\<close>

theorem SearchRecords_empty_query:
  assumes "currentFile a = Some f" and "cache a = Some c" and "TrimSpace (Query options) = []"
  shows "SearchRecordsWith compile a options
           = Inr \<lparr>resRecords = [], resOffset = Offset options, resLimit = Limit options,
                   resTotal = 0, TotalMatches = 0, resHasMore = False,
                   resQuery = Query options\<rparr>
         \<and> SearchRecords a options = SearchRecordsWith compile a options"
  using assms by (simp add: SearchRecordsWith_def SearchRecords_def)

theorem SearchRecords_empty_query_witness:
  "SearchRecords exampleApp
       \<lparr>Query = ''   '', CaseSensitive = False, UseLucene = True, SelectedField = [],
        Offset = 0, Limit = 10\<rparr>
     = Inr \<lparr>resRecords = [], resOffset = 0, resLimit = 10, resTotal = 0, TotalMatches = 0,
             resHasMore = False, resQuery = ''   ''\<rparr>"
proof -
  have "TrimSpace ''   '' = []" by code_simp
  then show ?thesis
    using SearchRecords_empty_query [of exampleApp exampleFile exampleCache
        "\<lparr>Query = ''   '', CaseSensitive = False, UseLucene = True, SelectedField = [],
          Offset = 0, Limit = 10\<rparr>" "\<lambda>q. None"]
    by (simp add: exampleApp_def)
qed

text \<open>
  C10, as the specification has it: for a positive line number that no stored record
  has, the lookup fails with an error of a kind of its own, distinct from the invalid
  line number. The kind of a \<^verbatim>\<open>JSONLError\<close> is its sentinel \<open>Err\<close>.
\<close>

definition failsDistinctFromInvalidLineNumber :: "failure + JSONRecord \<Rightarrow> bool" where
  "failsDistinctFromInvalidLineNumber r =
     (case r of Inl (Failed e) \<Rightarrow> Err e \<noteq> ErrInvalidLineNum | _ \<Rightarrow> False)"

text \<open>
  That fails on the example store at line 2, which is positive and which no record has:
  the error carries the sentinel \<open>ErrInvalidLineNum\<close>, as the error for a line number
  that is not positive does.
\<close>

theorem record_not_found_counterexample:
  "currentFile exampleApp = Some exampleFile \<and> cache exampleApp = Some exampleCache
   \<and> (0::int) < 2 \<and> find (\<lambda>record. LineNumber record = 2) (records exampleCache) = None
   \<and> \<not> failsDistinctFromInvalidLineNumber (GetRecordByLineNumber exampleApp 2)
   \<and> GetRecordByLineNumber exampleApp 2
       = Inl (Failed \<lparr>Message = ''Record not found at specified line number'', ErrorLine = 2,
                      Line = [], Err = ErrInvalidLineNum\<rparr>)"
  by (simp add: failsDistinctFromInvalidLineNumber_def GetRecordByLineNumber_def exampleApp_def
      exampleCache_def exampleRecords_def janeRecord_def)

lemma find_distinct_key:
  assumes "distinct (map key xs)" and "x \<in> set xs"
  shows "find (\<lambda>y. key y = key x) xs = Some x"
  using assms by (induction xs) (auto simp: image_iff)

text \<open>
  C10, amended. On a loaded store, \<^verbatim>\<open>GetRecordByLineNumber\<close> fails with the sentinel
  \<open>ErrInvalidLineNum\<close> and the message "Line number must be greater than 0" when the
  line number is not positive, whatever the store holds. When it is positive and no
  stored record has it, the lookup fails with the same sentinel \<open>ErrInvalidLineNum\<close>;
  only the message, "Record not found at specified line number", tells the two apart.
  When a stored record has the line number, line numbers being unique, that record is
  returned.
\<close>

theorem GetRecordByLineNumber_cases:
  assumes "currentFile a = Some f" and "cache a = Some c"
  shows "(n \<le> 0 \<longrightarrow>
            GetRecordByLineNumber a n
              = Inl (Failed \<lparr>Message = ''Line number must be greater than 0'', ErrorLine = n,
                             Line = [], Err = ErrInvalidLineNum\<rparr>))
       \<and> (0 < n \<and> (\<forall>record \<in> set (records c). LineNumber record \<noteq> n) \<longrightarrow>
            GetRecordByLineNumber a n
              = Inl (Failed \<lparr>Message = ''Record not found at specified line number'',
                             ErrorLine = n, Line = [], Err = ErrInvalidLineNum\<rparr>))
       \<and> (\<forall>record \<in> set (records c).
            0 < n \<and> LineNumber record = n \<and> distinct (map LineNumber (records c)) \<longrightarrow>
            GetRecordByLineNumber a n = Inr record)"
proof (intro conjI impI ballI)
  assume "n \<le> 0"
  with assms show "GetRecordByLineNumber a n
              = Inl (Failed \<lparr>Message = ''Line number must be greater than 0'', ErrorLine = n,
                             Line = [], Err = ErrInvalidLineNum\<rparr>)"
    by (simp add: GetRecordByLineNumber_def)
next
  assume h: "0 < n \<and> (\<forall>record \<in> set (records c). LineNumber record \<noteq> n)"
  then have "find (\<lambda>record. LineNumber record = n) (records c) = None"
    by (simp add: find_None_iff)
  with assms h show "GetRecordByLineNumber a n
              = Inl (Failed \<lparr>Message = ''Record not found at specified line number'',
                             ErrorLine = n, Line = [], Err = ErrInvalidLineNum\<rparr>)"
    by (simp add: GetRecordByLineNumber_def)
next
  fix r
  assume mem: "r \<in> set (records c)"
    and h: "0 < n \<and> LineNumber r = n \<and> distinct (map LineNumber (records c))"
  then have "find (\<lambda>y. LineNumber y = LineNumber r) (records c) = Some r"
    by (intro find_distinct_key) auto
  with assms h show "GetRecordByLineNumber a n = Inr r"
    by (auto simp: GetRecordByLineNumber_def)
qed

theorem GetRecordByLineNumber_cases_witness:
  "GetRecordByLineNumber exampleApp 0
     = Inl (Failed \<lparr>Message = ''Line number must be greater than 0'', ErrorLine = 0,
                    Line = [], Err = ErrInvalidLineNum\<rparr>)
   \<and> GetRecordByLineNumber exampleApp 2
     = Inl (Failed \<lparr>Message = ''Record not found at specified line number'',
                    ErrorLine = 2, Line = [], Err = ErrInvalidLineNum\<rparr>)
   \<and> GetRecordByLineNumber exampleApp 3 = Inr janeRecord"
proof -
  have loaded: "currentFile exampleApp = Some exampleFile" "cache exampleApp = Some exampleCache"
    by (simp_all add: exampleApp_def)
  show ?thesis
    using GetRecordByLineNumber_cases [OF loaded, of 0]
      GetRecordByLineNumber_cases [OF loaded, of 2]
      GetRecordByLineNumber_cases [OF loaded, of 3]
    by (simp add: exampleCache_def exampleRecords_def janeRecord_def)
qed

end
